theory Spec2Isabelle
  imports Main
begin

section \<open>Values shared by the components\<close>

text \<open>
  JavaScript strings are modelled as \<^typ>\<open>string\<close>, a list of code units below 256.
  Values read from the host at the moment of a call (a fresh UUID, the clock in
  milliseconds, the location and the agent string) are passed in as a \<open>runtime\<close>
  record, so that every operation is a function of its arguments. A \<^verbatim>\<open>Date\<close> and its ISO
  rendering are both represented by the clock value they were made from.
\<close>

record runtime =
  rt_uuid :: string
  rt_now :: nat
  rt_window :: "string option"
  rt_navigator :: "string option"

text \<open>\<^verbatim>\<open>x ?? 'unknown'\<close> in the shape the source writes it,
  \<^verbatim>\<open>typeof window !== 'undefined' ? window.location.href : 'unknown'\<close>.\<close>

definition orUnknown :: "string option \<Rightarrow> string" where
  "orUnknown v = (case v of None \<Rightarrow> ''unknown'' | Some s \<Rightarrow> s)"

text \<open>\<^verbatim>\<open>Array.prototype.slice(-n)\<close>: the last \<open>n\<close> elements; \<^verbatim>\<open>slice(-0)\<close> is
  \<^verbatim>\<open>slice(0)\<close>, the whole array.\<close>

definition sliceFromEnd :: "nat \<Rightarrow> 'a list \<Rightarrow> 'a list" where
  "sliceFromEnd n xs = (if n = 0 then xs else drop (length xs - n) xs)"

text \<open>Decimal rendering of a number inside a template literal.\<close>

definition digitChar :: "nat \<Rightarrow> char" where
  "digitChar d = char_of (48 + d)"

function stringOfNat :: "nat \<Rightarrow> string" where
  "stringOfNat n =
     (if n < 10 then [digitChar n] else stringOfNat (n div 10) @ [digitChar (n mod 10)])"
  by pat_completeness auto
termination
  by (relation "measure (\<lambda>n. n)") auto

declare stringOfNat.simps [simp del]

section \<open>ErrorLogger (src/utils/errorLogger.js)\<close>

text \<open>A log entry. The structured \<^verbatim>\<open>details\<close> value is kept as its rendering, \<^verbatim>\<open>null\<close> as
  \<open>None\<close>; the levels are the strings the source passes.\<close>

record logEntry =
  le_id :: string
  le_timestamp :: nat
  le_level :: string
  le_message :: string
  le_details :: "string option"
  le_context :: "string option"
  le_url :: string
  le_userAgent :: string

record errorLogger =
  logs :: "logEntry list"
  maxLogs :: nat
  isProduction :: bool

text \<open>The object literal that \<^verbatim>\<open>createLogEntry\<close> builds first.\<close>

definition newLogEntry ::
  "runtime \<Rightarrow> string \<Rightarrow> string \<Rightarrow> string option \<Rightarrow> string option \<Rightarrow> logEntry" where
  "newLogEntry rt level message details context =
     \<lparr> le_id = rt_uuid rt, le_timestamp = rt_now rt, le_level = level,
       le_message = message, le_details = details, le_context = context,
       le_url = orUnknown (rt_window rt), le_userAgent = orUnknown (rt_navigator rt) \<rparr>"

text \<open>
  \<^verbatim>\<open>createLogEntry(level, message, details, context)\<close>: push the entry, cut the buffer
  to its last \<open>maxLogs\<close> entries when it has grown beyond \<open>maxLogs\<close>, return the entry.
\<close>

definition createLogEntry ::
  "runtime \<Rightarrow> string \<Rightarrow> string \<Rightarrow> string option \<Rightarrow> string option \<Rightarrow> errorLogger
     \<Rightarrow> logEntry \<times> errorLogger" where
  "createLogEntry rt level message details context lg =
     (let entry = newLogEntry rt level message details context;
          pushed = logs lg @ [entry];
          kept = (if length pushed > maxLogs lg then sliceFromEnd (maxLogs lg) pushed
                  else pushed)
      in (entry, lg\<lparr>logs := kept\<rparr>))"

text \<open>
  The wrappers. Their console output and the external sink of \<^verbatim>\<open>error\<close> are write-only
  and never read back, so they are left out. \<^verbatim>\<open>debug\<close> returns \<^verbatim>\<open>null\<close> in production
  mode before it reaches \<^verbatim>\<open>createLogEntry\<close>.
\<close>

definition logger_error ::
  "runtime \<Rightarrow> string \<Rightarrow> string option \<Rightarrow> string option \<Rightarrow> errorLogger
     \<Rightarrow> logEntry \<times> errorLogger" where
  "logger_error rt message details context lg =
     createLogEntry rt ''ERROR'' message details context lg"

definition logger_warn ::
  "runtime \<Rightarrow> string \<Rightarrow> string option \<Rightarrow> string option \<Rightarrow> errorLogger
     \<Rightarrow> logEntry \<times> errorLogger" where
  "logger_warn rt message details context lg =
     createLogEntry rt ''WARN'' message details context lg"

definition logger_info ::
  "runtime \<Rightarrow> string \<Rightarrow> string option \<Rightarrow> string option \<Rightarrow> errorLogger
     \<Rightarrow> logEntry \<times> errorLogger" where
  "logger_info rt message details context lg =
     createLogEntry rt ''INFO'' message details context lg"

definition logger_debug ::
  "runtime \<Rightarrow> string \<Rightarrow> string option \<Rightarrow> string option \<Rightarrow> errorLogger
     \<Rightarrow> logEntry option \<times> errorLogger" where
  "logger_debug rt message details context lg =
     (if isProduction lg then (None, lg)
      else (case createLogEntry rt ''DEBUG'' message details context lg of
              (entry, lg') \<Rightarrow> (Some entry, lg')))"

text \<open>The constructor: an empty buffer of capacity 1000, then the initialisation entry.\<close>

definition newErrorLogger :: "runtime \<Rightarrow> bool \<Rightarrow> errorLogger" where
  "newErrorLogger rt production =
     snd (logger_info rt ''ErrorLogger initialized''
            (Some (if production then ''production'' else ''development'')) None
            \<lparr> logs = [], maxLogs = 1000, isProduction = production \<rparr>)"

definition getLogsByLevel :: "string \<Rightarrow> errorLogger \<Rightarrow> logEntry list" where
  "getLogsByLevel level lg = filter (\<lambda>e. le_level e = level) (logs lg)"

definition getRecentLogs :: "nat \<Rightarrow> errorLogger \<Rightarrow> logEntry list" where
  "getRecentLogs n lg = sliceFromEnd n (logs lg)"

definition getLogsByContext :: "string option \<Rightarrow> errorLogger \<Rightarrow> logEntry list" where
  "getLogsByContext context lg = filter (\<lambda>e. le_context e = context) (logs lg)"

text \<open>\<^verbatim>\<open>clearLogs()\<close>: remember the length, empty the buffer, log the clearing at INFO
  level, return the remembered length.\<close>

definition clearLogs :: "runtime \<Rightarrow> errorLogger \<Rightarrow> nat \<times> errorLogger" where
  "clearLogs rt lg =
     (let clearedCount = length (logs lg);
          lg1 = lg\<lparr>logs := []\<rparr>;
          lg2 = snd (logger_info rt (''Cleared '' @ stringOfNat clearedCount @ '' log entries'')
                       None (Some ''Log Management'') lg1)
      in (clearedCount, lg2))"

text \<open>A call of the logging interface, and a run of such calls, each with the host
  values it reads. The run collects what every call returned.\<close>

datatype logCall =
    Log string string "string option" "string option"
  | LogError string "string option" "string option"
  | LogWarn string "string option" "string option"
  | LogInfo string "string option" "string option"
  | LogDebug string "string option" "string option"

fun doLogCall :: "runtime \<Rightarrow> logCall \<Rightarrow> errorLogger \<Rightarrow> logEntry option \<times> errorLogger" where
  "doLogCall rt (Log level m d c) lg =
     (case createLogEntry rt level m d c lg of (e, lg') \<Rightarrow> (Some e, lg'))"
| "doLogCall rt (LogError m d c) lg =
     (case logger_error rt m d c lg of (e, lg') \<Rightarrow> (Some e, lg'))"
| "doLogCall rt (LogWarn m d c) lg =
     (case logger_warn rt m d c lg of (e, lg') \<Rightarrow> (Some e, lg'))"
| "doLogCall rt (LogInfo m d c) lg =
     (case logger_info rt m d c lg of (e, lg') \<Rightarrow> (Some e, lg'))"
| "doLogCall rt (LogDebug m d c) lg = logger_debug rt m d c lg"

fun runLogCalls ::
  "(runtime \<times> logCall) list \<Rightarrow> errorLogger \<Rightarrow> logEntry option list \<times> errorLogger" where
  "runLogCalls [] lg = ([], lg)"
| "runLogCalls ((rt, c) # cs) lg =
     (case doLogCall rt c lg of
        (r, lg') \<Rightarrow> (case runLogCalls cs lg' of (rs, lg'') \<Rightarrow> (r # rs, lg'')))"

fun isDebugCall :: "logCall \<Rightarrow> bool" where
  "isDebugCall (LogDebug m d c) = True"
| "isDebugCall other = False"

text \<open>The entry a call builds when it reaches \<^verbatim>\<open>createLogEntry\<close>.\<close>

fun entryOfCall :: "runtime \<Rightarrow> logCall \<Rightarrow> logEntry" where
  "entryOfCall rt (Log level m d c) = newLogEntry rt level m d c"
| "entryOfCall rt (LogError m d c) = newLogEntry rt ''ERROR'' m d c"
| "entryOfCall rt (LogWarn m d c) = newLogEntry rt ''WARN'' m d c"
| "entryOfCall rt (LogInfo m d c) = newLogEntry rt ''INFO'' m d c"
| "entryOfCall rt (LogDebug m d c) = newLogEntry rt ''DEBUG'' m d c"

text \<open>A call reaches \<^verbatim>\<open>createLogEntry\<close> unless it is \<^verbatim>\<open>debug\<close> in production mode.\<close>

definition createsEntry :: "bool \<Rightarrow> logCall \<Rightarrow> bool" where
  "createsEntry production c = (\<not> (production \<and> isDebugCall c))"

text \<open>What a run is expected to produce: the entries created, in call order, and the
  value each call returns.\<close>

fun createdEntries :: "bool \<Rightarrow> (runtime \<times> logCall) list \<Rightarrow> logEntry list" where
  "createdEntries production [] = []"
| "createdEntries production ((rt, c) # cs) =
     (if createsEntry production c then entryOfCall rt c # createdEntries production cs
      else createdEntries production cs)"

fun expectedResults :: "bool \<Rightarrow> (runtime \<times> logCall) list \<Rightarrow> logEntry option list" where
  "expectedResults production [] = []"
| "expectedResults production ((rt, c) # cs) =
     (if createsEntry production c then Some (entryOfCall rt c) else None)
       # expectedResults production cs"

text \<open>Host values used in the concrete examples.\<close>

definition sampleRuntime :: runtime where
  "sampleRuntime = \<lparr> rt_uuid = ''00000000-0000-4000-8000-000000000000'', rt_now = 0,
                      rt_window = None, rt_navigator = None \<rparr>"

section \<open>Error kinds and typed error values (src/types/index.js, src/utils/index.js)\<close>

definition MICROPHONE_ACCESS_DENIED :: string where
  "MICROPHONE_ACCESS_DENIED = ''MICROPHONE_ACCESS_DENIED''"

definition NETWORK_ERROR :: string where
  "NETWORK_ERROR = ''NETWORK_ERROR''"

definition VOICE_PROCESSING_ERROR :: string where
  "VOICE_PROCESSING_ERROR = ''VOICE_PROCESSING_ERROR''"

definition WIDGET_INITIALIZATION_ERROR :: string where
  "WIDGET_INITIALIZATION_ERROR = ''WIDGET_INITIALIZATION_ERROR''"

definition UNKNOWN_ERROR :: string where
  "UNKNOWN_ERROR = ''UNKNOWN_ERROR''"

text \<open>\<^verbatim>\<open>Object.values(ERROR_TYPES)\<close>.\<close>

definition ERROR_TYPES :: "string list" where
  "ERROR_TYPES = [MICROPHONE_ACCESS_DENIED, NETWORK_ERROR, VOICE_PROCESSING_ERROR,
                  WIDGET_INITIALIZATION_ERROR, UNKNOWN_ERROR]"

record appError =
  ae_type :: string
  ae_message :: string
  ae_details :: "string option"
  ae_timestamp :: nat
  ae_recoverable :: bool

definition createAppError ::
  "runtime \<Rightarrow> string \<Rightarrow> string \<Rightarrow> string option \<Rightarrow> bool \<Rightarrow> appError" where
  "createAppError rt type message details recoverable =
     \<lparr> ae_type = type, ae_message = message, ae_details = details,
       ae_timestamp = rt_now rt, ae_recoverable = recoverable \<rparr>"

definition createApplicationError ::
  "runtime \<Rightarrow> string \<Rightarrow> string \<Rightarrow> string option \<Rightarrow> bool \<Rightarrow> appError" where
  "createApplicationError rt type message details recoverable =
     createAppError rt (if List.member ERROR_TYPES type then type else UNKNOWN_ERROR)
       message details recoverable"

section \<open>String helpers\<close>

text \<open>\<^verbatim>\<open>String.prototype.includes\<close>: the argument occurs as a contiguous, case-sensitive
  substring.\<close>

fun startsWith :: "string \<Rightarrow> string \<Rightarrow> bool" where
  "startsWith s [] = True"
| "startsWith [] (p # ps) = False"
| "startsWith (c # cs) (p # ps) = (c = p \<and> startsWith cs ps)"

fun str_includes :: "string \<Rightarrow> string \<Rightarrow> bool" where
  "str_includes [] sub = (sub = [])"
| "str_includes (c # cs) sub = (startsWith (c # cs) sub \<or> str_includes cs sub)"

text \<open>\<^verbatim>\<open>String.prototype.trim\<close> strips white space and line terminators from both ends;
  among the code units below 256 these are TAB, LF, VT, FF, CR, SPACE and NBSP.\<close>

definition isWhiteSpace :: "char \<Rightarrow> bool" where
  "isWhiteSpace c = List.member [9, 10, 11, 12, 13, 32, 160 :: nat] (of_char c)"

definition trim :: "string \<Rightarrow> string" where
  "trim s = rev (dropWhile isWhiteSpace (rev (dropWhile isWhiteSpace s)))"

section \<open>ErrorContext (src/contexts/ErrorContext.jsx)\<close>

record errorState =
  errors :: "appError list"
  isRecovering :: bool

datatype errorAction =
    ADD_ERROR appError
  | REMOVE_ERROR string
  | CLEAR_ERRORS
  | SET_RECOVERING bool
  | OTHER_ACTION

fun errorReducer :: "errorState \<Rightarrow> errorAction \<Rightarrow> errorState" where
  "errorReducer state (ADD_ERROR payload) = state\<lparr>errors := errors state @ [payload]\<rparr>"
| "errorReducer state (REMOVE_ERROR payload) =
     state\<lparr>errors := filter (\<lambda>e. stringOfNat (ae_timestamp e) \<noteq> payload) (errors state)\<rparr>"
| "errorReducer state CLEAR_ERRORS = state\<lparr>errors := []\<rparr>"
| "errorReducer state (SET_RECOVERING payload) = state\<lparr>isRecovering := payload\<rparr>"
| "errorReducer state OTHER_ACTION = state"

definition initialState :: errorState where
  "initialState = \<lparr> errors = [], isRecovering = False \<rparr>"

text \<open>A toast shown to the user: its text, its duration in milliseconds, and whether a
  click on it removes the error.\<close>

record toast =
  toast_message :: string
  toast_duration :: nat
  toast_onClick :: bool

record errorContext =
  ec_state :: errorState
  ec_toasts :: "toast list"

definition initialErrorContext :: errorContext where
  "initialErrorContext = \<lparr> ec_state = initialState, ec_toasts = [] \<rparr>"

definition addError :: "appError \<Rightarrow> errorContext \<Rightarrow> errorContext" where
  "addError e ec =
     (let toastMessage = (if ae_recoverable e then ae_message e @ '' (Tap to retry)''
                          else ae_message e);
          t = (if ae_recoverable e
               then \<lparr> toast_message = toastMessage, toast_duration = 5000, toast_onClick = True \<rparr>
               else \<lparr> toast_message = toastMessage, toast_duration = 8000, toast_onClick = False \<rparr>)
      in ec\<lparr> ec_state := errorReducer (ec_state ec) (ADD_ERROR e),
             ec_toasts := ec_toasts ec @ [t] \<rparr>)"

definition removeError :: "string \<Rightarrow> errorContext \<Rightarrow> errorContext" where
  "removeError errorId ec = ec\<lparr> ec_state := errorReducer (ec_state ec) (REMOVE_ERROR errorId) \<rparr>"

definition clearErrors :: "errorContext \<Rightarrow> errorContext" where
  "clearErrors ec = ec\<lparr> ec_state := errorReducer (ec_state ec) CLEAR_ERRORS \<rparr>"

text \<open>A caught value: an \<^verbatim>\<open>Error\<close> instance with its message, or anything else with its
  \<^verbatim>\<open>String(...)\<close> rendering.\<close>

datatype caught = ErrorInstance string | OtherValue string

text \<open>The kind \<^verbatim>\<open>handleError\<close> picks for an \<^verbatim>\<open>Error\<close> instance, from its message, in
  the order of the source's \<^verbatim>\<open>if\<close>/\<^verbatim>\<open>else if\<close> chain.\<close>

definition classify :: "string \<Rightarrow> string" where
  "classify message =
     (if str_includes message ''microphone'' \<or> str_includes message ''getUserMedia''
        then MICROPHONE_ACCESS_DENIED
      else if str_includes message ''network'' \<or> str_includes message ''fetch''
        then NETWORK_ERROR
      else if str_includes message ''voice'' \<or> str_includes message ''speech''
        then VOICE_PROCESSING_ERROR
      else if str_includes message ''widget'' \<or> str_includes message ''elevenlabs''
        then WIDGET_INITIALIZATION_ERROR
      else UNKNOWN_ERROR)"

text \<open>The \<^verbatim>\<open>AppError\<close> that \<^verbatim>\<open>handleError(error, context)\<close> builds; an empty context is
  falsy, and an \<^verbatim>\<open>undefined\<close> details argument takes the default \<^verbatim>\<open>null\<close>.\<close>

definition handleError_appError :: "runtime \<Rightarrow> caught \<Rightarrow> string \<Rightarrow> appError" where
  "handleError_appError rt err context =
     (case err of
        ErrorInstance message \<Rightarrow>
          (let errorType = classify message
           in createAppError rt errorType message
                (if context \<noteq> [] then Some (''Context: '' @ context) else None)
                (errorType \<noteq> MICROPHONE_ACCESS_DENIED))
      | OtherValue rendering \<Rightarrow>
          createAppError rt UNKNOWN_ERROR ''An unexpected error occurred''
            (Some (if context \<noteq> [] then ''Context: '' @ context @ '', Error: '' @ rendering
                   else rendering))
            True)"

definition handleError :: "runtime \<Rightarrow> caught \<Rightarrow> string \<Rightarrow> errorContext \<Rightarrow> errorContext" where
  "handleError rt err context ec = addError (handleError_appError rt err context) ec"

section \<open>The document as the widget code sees it\<close>

text \<open>
  The code looks at two things in the document: the \<^verbatim>\<open>script\<close> elements, found by
  \<^verbatim>\<open>querySelector('script[src*="convai-widget-embed"]')\<close>, and the
  \<^verbatim>\<open>elevenlabs-convai\<close> elements, found by \<^verbatim>\<open>querySelector('elevenlabs-convai')\<close>.
  Every element is a node with an identity; \<^verbatim>\<open>createElement\<close> takes the identity of the
  new node as an argument here.
\<close>

record scriptTag =
  st_node :: nat
  st_src :: string

record document =
  scripts :: "scriptTag list"
  convaiElements :: "nat list"

definition widgetScriptUrl :: string where
  "widgetScriptUrl = ''https://unpkg.com/@elevenlabs/convai-widget-embed''"

definition matchesWidgetScript :: "scriptTag \<Rightarrow> bool" where
  "matchesWidgetScript t = str_includes (st_src t) ''convai-widget-embed''"

definition querySelector_script :: "document \<Rightarrow> scriptTag option" where
  "querySelector_script doc = find matchesWidgetScript (scripts doc)"

definition querySelector_convai :: "document \<Rightarrow> nat option" where
  "querySelector_convai doc = (case convaiElements doc of [] \<Rightarrow> None | w # ws \<Rightarrow> Some w)"

definition appendScript :: "nat \<Rightarrow> document \<Rightarrow> document" where
  "appendScript node doc =
     doc\<lparr> scripts := scripts doc @ [\<lparr> st_node = node, st_src = widgetScriptUrl \<rparr>] \<rparr>"

text \<open>A document that holds one widget element and no script tag.\<close>

definition widgetDocument :: document where
  "widgetDocument = \<lparr> scripts = [], convaiElements = [7] \<rparr>"

section \<open>Script loading in the two widget components\<close>

text \<open>
  \<^verbatim>\<open>loadScript\<close> of the widget component with the status header: if a matching script tag
  is in the document it only records that the script is loaded, otherwise it appends a
  new tag. The result says whether a tag was injected.
\<close>

definition loadScript :: "nat \<Rightarrow> document \<Rightarrow> bool \<times> document" where
  "loadScript node doc =
     (case querySelector_script doc of
        Some t \<Rightarrow> (False, doc)
      | None \<Rightarrow> (True, appendScript node doc))"

text \<open>
  The script-load effect of the compact floating widget component: it appends a new tag
  on every mount, and its cleanup removes that tag if it is still in the document.
\<close>

definition compactWidget_loadEffect :: "nat \<Rightarrow> document \<Rightarrow> bool \<times> document" where
  "compactWidget_loadEffect node doc = (True, appendScript node doc)"

definition compactWidget_cleanup :: "nat \<Rightarrow> document \<Rightarrow> document" where
  "compactWidget_cleanup node doc =
     doc\<lparr> scripts := filter (\<lambda>t. st_node t \<noteq> node) (scripts doc) \<rparr>"

datatype mountEvent = MountWidget nat | MountCompactWidget nat | UnmountCompactWidget nat

fun applyMount :: "mountEvent \<Rightarrow> document \<Rightarrow> bool \<times> document" where
  "applyMount (MountWidget node) doc = loadScript node doc"
| "applyMount (MountCompactWidget node) doc = compactWidget_loadEffect node doc"
| "applyMount (UnmountCompactWidget node) doc = (False, compactWidget_cleanup node doc)"

text \<open>A run of mounts: the number of script tags injected, and the document afterwards.\<close>

fun runMounts :: "mountEvent list \<Rightarrow> document \<Rightarrow> nat \<times> document" where
  "runMounts [] doc = (0, doc)"
| "runMounts (e # es) doc =
     (case applyMount e doc of
        (injected, doc') \<Rightarrow>
          (case runMounts es doc' of
             (n, doc'') \<Rightarrow> ((if injected then Suc n else n), doc'')))"

fun isGuardedMount :: "mountEvent \<Rightarrow> bool" where
  "isGuardedMount (MountWidget node) = True"
| "isGuardedMount other = False"

definition emptyDocument :: document where
  "emptyDocument = \<lparr> scripts = [], convaiElements = [] \<rparr>"

section \<open>The widget hook (useElevenLabsWidget)\<close>

record widgetHook =
  isConnected :: bool
  isInCall :: bool
  isListening :: bool
  isSpeaking :: bool
  error :: "appError option"
  widgetStatus :: string
  widgetRef :: "nat option"

text \<open>
  How React runs the hook. A callback reads the values captured by the render that
  created it, and a setter call does not change them: the value is stored and shown by
  the next render. So the hook is modelled with two copies of its state: \<open>hook\<close> is the
  state store, holding the last value written to each state variable (every setter call
  in the source assigns a constant); \<open>rendered\<close> is the state the latest render showed,
  which is what the closures of the current callbacks captured. The dependency arrays of
  the callbacks list every state value they read, so a callback taken from the latest
  render reads exactly \<open>rendered\<close>. Only \<^verbatim>\<open>startVoiceInput\<close> (\<^verbatim>\<open>isConnected\<close>),
  \<^verbatim>\<open>toggleVoiceInput\<close> (\<^verbatim>\<open>isListening\<close>) and the cleanup of the last effect
  (\<^verbatim>\<open>isInCall\<close>) read a captured value. The error context the handlers report to is part
  of the world.
\<close>

record world =
  hook :: widgetHook
  rendered :: widgetHook
  errorCtx :: errorContext

definition initialHook :: widgetHook where
  "initialHook = \<lparr> isConnected = False, isInCall = False, isListening = False,
                    isSpeaking = False, error = None, widgetStatus = ''idle'',
                    widgetRef = None \<rparr>"

definition initialWorld :: world where
  "initialWorld = \<lparr> hook = initialHook, rendered = initialHook,
                     errorCtx = initialErrorContext \<rparr>"

text \<open>\<^verbatim>\<open>handleStatusChange(status)\<close>: the status is stored, then the \<^verbatim>\<open>switch\<close>; a status
  that matches no case changes nothing else.\<close>

definition handleStatusChange :: "string \<Rightarrow> widgetHook \<Rightarrow> widgetHook" where
  "handleStatusChange status h0 =
     (let h = h0\<lparr>widgetStatus := status\<rparr>
      in if status = ''connected'' then h\<lparr>isConnected := True, error := None\<rparr>
         else if status = ''disconnected'' \<or> status = ''idle''
           then h\<lparr>isConnected := False, isInCall := False, isListening := False,
                  isSpeaking := False\<rparr>
         else if status = ''in-call'' then h\<lparr>isInCall := True\<rparr>
         else if status = ''listening'' then h\<lparr>isListening := True, isSpeaking := False\<rparr>
         else if status = ''speaking'' then h\<lparr>isListening := False, isSpeaking := True\<rparr>
         else if status = ''error''
           then h\<lparr>isConnected := False, isInCall := False, isListening := False,
                  isSpeaking := False\<rparr>
         else h)"

definition handleConversationStart :: "widgetHook \<Rightarrow> widgetHook" where
  "handleConversationStart h = h\<lparr>isInCall := True, error := None\<rparr>"

definition handleConversationEnd :: "widgetHook \<Rightarrow> widgetHook" where
  "handleConversationEnd h = h\<lparr>isInCall := False, isListening := False, isSpeaking := False\<rparr>"

definition handleWidgetError :: "runtime \<Rightarrow> string \<Rightarrow> world \<Rightarrow> world" where
  "handleWidgetError rt errorMessage w =
     (let appError = createApplicationError rt WIDGET_INITIALIZATION_ERROR errorMessage
                       (Some ''ElevenLabs widget error'') True
      in w\<lparr> hook := (hook w)\<lparr>error := Some appError\<rparr>,
            errorCtx := handleError rt (ErrorInstance errorMessage) ''ElevenLabs widget''
                          (errorCtx w) \<rparr>)"

text \<open>
  \<^verbatim>\<open>connect()\<close>: look the widget element up; without one, the \<^verbatim>\<open>throw\<close> lands in the
  \<^verbatim>\<open>catch\<close>, which stores a \<^verbatim>\<open>WIDGET_INITIALIZATION_ERROR\<close> and reports the thrown
  error; with one, remember it, set \<^verbatim>\<open>isConnected\<close> and clear the error.
\<close>

definition connect :: "runtime \<Rightarrow> document \<Rightarrow> world \<Rightarrow> world" where
  "connect rt doc w =
     (case querySelector_convai doc of
        None \<Rightarrow>
          (let err = ''ElevenLabs widget not found'';
               appError = createApplicationError rt WIDGET_INITIALIZATION_ERROR
                            ''Failed to connect to voice service'' (Some err) True
           in w\<lparr> hook := (hook w)\<lparr>error := Some appError\<rparr>,
                 errorCtx := handleError rt (ErrorInstance err) ''Widget connection''
                               (errorCtx w) \<rparr>)
      | Some widget \<Rightarrow>
          w\<lparr> hook := (hook w)\<lparr>widgetRef := Some widget, isConnected := True, error := None\<rparr> \<rparr>)"

text \<open>
  In \<^verbatim>\<open>disconnect\<close>, \<^verbatim>\<open>startVoiceInput\<close> and \<^verbatim>\<open>stopVoiceInput\<close> the \<^verbatim>\<open>try\<close> body only
  calls state setters and the console, which do not throw, so the \<^verbatim>\<open>catch\<close> branch is
  never entered and the functions always return normally.
\<close>

definition disconnect :: "widgetHook \<Rightarrow> widgetHook" where
  "disconnect h = h\<lparr>isConnected := False, isInCall := False, isListening := False,
                    isSpeaking := False, error := None\<rparr>"

definition clearError :: "widgetHook \<Rightarrow> widgetHook" where
  "clearError h = h\<lparr>error := None\<rparr>"

text \<open>\<^verbatim>\<open>startVoiceInput\<close> tests the \<^verbatim>\<open>isConnected\<close> its closure captured and writes to the
  store.\<close>

definition startVoiceInput :: "runtime \<Rightarrow> widgetHook \<Rightarrow> widgetHook \<Rightarrow> bool \<times> widgetHook" where
  "startVoiceInput rt captured h =
     (if \<not> isConnected captured
      then (let appError = createApplicationError rt WIDGET_INITIALIZATION_ERROR
                             ''Voice service not connected''
                             (Some ''Cannot start voice input without connection'') True
            in (False, h\<lparr>error := Some appError\<rparr>))
      else (True, h\<lparr>isListening := True, isSpeaking := False\<rparr>))"

definition stopVoiceInput :: "widgetHook \<Rightarrow> bool \<times> widgetHook" where
  "stopVoiceInput h = (True, h\<lparr>isListening := False\<rparr>)"

text \<open>\<^verbatim>\<open>toggleVoiceInput\<close> branches on the \<^verbatim>\<open>isListening\<close> its closure captured; the
  \<^verbatim>\<open>startVoiceInput\<close> it calls comes from the same render.\<close>

definition toggleVoiceInput :: "runtime \<Rightarrow> widgetHook \<Rightarrow> widgetHook \<Rightarrow> bool \<times> widgetHook" where
  "toggleVoiceInput rt captured h =
     (if isListening captured then stopVoiceInput h else startVoiceInput rt captured h)"

text \<open>
  The cleanup of the hook's last effect, \<^verbatim>\<open>() => { if (isInCall) disconnect(); }\<close>, with
  the \<^verbatim>\<open>isInCall\<close> of the render that set the effect up.
\<close>

definition effectCleanup :: "widgetHook \<Rightarrow> widgetHook \<Rightarrow> widgetHook" where
  "effectCleanup captured h = (if isInCall captured then disconnect h else h)"

text \<open>
  A render shows the store. The last effect has the dependencies
  \<^verbatim>\<open>[isInCall, disconnect]\<close>, and \<^verbatim>\<open>disconnect\<close> keeps its identity (its only dependency
  is the error context's \<^verbatim>\<open>handleError\<close>, which has none that change), so React runs the
  cleanup of the previous render exactly when \<^verbatim>\<open>isInCall\<close> differs from the previous
  render; the cleanup writes to the store again.
\<close>

definition render :: "world \<Rightarrow> world" where
  "render w =
     (let w1 = w\<lparr>rendered := hook w\<rparr>
      in if isInCall (rendered w) \<noteq> isInCall (hook w)
         then w1\<lparr>hook := effectCleanup (rendered w) (hook w)\<rparr>
         else w1)"

text \<open>The four callbacks the widget component invokes, and the commands the hook
  exports, each taken from the latest render.\<close>

datatype hookCall =
    StatusChange string
  | ConversationStart
  | ConversationEnd
  | WidgetError string
  | Connect document
  | Disconnect
  | ClearError
  | StartVoiceInput
  | StopVoiceInput
  | ToggleVoiceInput

fun applyCall :: "runtime \<Rightarrow> hookCall \<Rightarrow> world \<Rightarrow> world" where
  "applyCall rt (StatusChange status) w = w\<lparr>hook := handleStatusChange status (hook w)\<rparr>"
| "applyCall rt ConversationStart w = w\<lparr>hook := handleConversationStart (hook w)\<rparr>"
| "applyCall rt ConversationEnd w = w\<lparr>hook := handleConversationEnd (hook w)\<rparr>"
| "applyCall rt (WidgetError m) w = handleWidgetError rt m w"
| "applyCall rt (Connect doc) w = connect rt doc w"
| "applyCall rt Disconnect w = w\<lparr>hook := disconnect (hook w)\<rparr>"
| "applyCall rt ClearError w = w\<lparr>hook := clearError (hook w)\<rparr>"
| "applyCall rt StartVoiceInput w =
     w\<lparr>hook := snd (startVoiceInput rt (rendered w) (hook w))\<rparr>"
| "applyCall rt StopVoiceInput w = w\<lparr>hook := snd (stopVoiceInput (hook w))\<rparr>"
| "applyCall rt ToggleVoiceInput w =
     w\<lparr>hook := snd (toggleVoiceInput rt (rendered w) (hook w))\<rparr>"

text \<open>
  What can happen to a mounted hook: a call, a render, and the unmount, which runs the
  cleanup of the latest render. Runs of these events cover every interleaving, also
  several calls from one render (one host event that invokes two callbacks).
\<close>

datatype hookEvent = Call hookCall | Render | Unmount

fun applyEvent :: "runtime \<Rightarrow> hookEvent \<Rightarrow> world \<Rightarrow> world" where
  "applyEvent rt (Call c) w = applyCall rt c w"
| "applyEvent rt Render w = render w"
| "applyEvent rt Unmount w = w\<lparr>hook := effectCleanup (rendered w) (hook w)\<rparr>"

fun runEvents :: "(runtime \<times> hookEvent) list \<Rightarrow> world \<Rightarrow> world" where
  "runEvents [] w = w"
| "runEvents ((rt, e) # es) w = runEvents es (applyEvent rt e w)"

text \<open>
  One host event that makes one call: the call, then React renders until nothing is
  pending. The first render may run the cleanup, whose \<^verbatim>\<open>disconnect\<close> needs one more
  render; after that the store and the rendered state agree.
\<close>

definition dispatch :: "runtime \<Rightarrow> hookCall \<Rightarrow> world \<Rightarrow> world" where
  "dispatch rt c w = render (render (applyCall rt c w))"

text \<open>The calls whose own code assigns \<^verbatim>\<open>null\<close> to the error: \<^verbatim>\<open>clearError\<close>,
  \<^verbatim>\<open>disconnect\<close>, a \<^verbatim>\<open>connect\<close> that finds the widget element, the \<^verbatim>\<open>connected\<close> status
  and the start of a conversation.\<close>

fun clearsError :: "hookCall \<Rightarrow> bool" where
  "clearsError ClearError = True"
| "clearsError Disconnect = True"
| "clearsError (Connect doc) = (querySelector_convai doc \<noteq> None)"
| "clearsError (StatusChange status) = (status = ''connected'')"
| "clearsError ConversationStart = True"
| "clearsError other = False"

text \<open>The calls whose code assigns \<^verbatim>\<open>false\<close> to \<^verbatim>\<open>isInCall\<close>: the end of a conversation,
  the \<^verbatim>\<open>disconnected\<close>, \<^verbatim>\<open>idle\<close> and \<^verbatim>\<open>error\<close> statuses, and \<^verbatim>\<open>disconnect\<close>.\<close>

fun endsCall :: "hookCall \<Rightarrow> bool" where
  "endsCall ConversationEnd = True"
| "endsCall (StatusChange status) =
     (status = ''disconnected'' \<or> status = ''idle'' \<or> status = ''error'')"
| "endsCall Disconnect = True"
| "endsCall other = False"

text \<open>The events after which a set error is \<^verbatim>\<open>null\<close> in the store: a call that clears
  it, a render that runs the cleanup of a render that was in a call, and the unmount of
  a render that was in a call.\<close>

fun eventClearsError :: "hookEvent \<Rightarrow> world \<Rightarrow> bool" where
  "eventClearsError (Call c) w = clearsError c"
| "eventClearsError Render w = (isInCall (rendered w) \<and> \<not> isInCall (hook w))"
| "eventClearsError Unmount w = isInCall (rendered w)"

section \<open>The chat window's message timeline (ChatWindow.jsx)\<close>

record message =
  msg_id :: string
  msg_content :: string
  msg_sender :: string
  msg_type :: string
  msg_timestamp :: nat
  msg_status :: string

definition createMessage :: "runtime \<Rightarrow> string \<Rightarrow> string \<Rightarrow> string \<Rightarrow> message" where
  "createMessage rt content sender type =
     \<lparr> msg_id = rt_uuid rt, msg_content = content, msg_sender = sender, msg_type = type,
       msg_timestamp = rt_now rt, msg_status = ''sent'' \<rparr>"

text \<open>\<^verbatim>\<open>createChatMessage\<close> throws on an empty content, an unknown sender or an unknown
  type; the thrown message is the left result.\<close>

definition createChatMessage :: "runtime \<Rightarrow> string \<Rightarrow> string \<Rightarrow> string \<Rightarrow> string + message" where
  "createChatMessage rt content sender type =
     (if content = [] then Inl ''Message content is required and must be a string''
      else if \<not> List.member [''user'', ''assistant''] sender
        then Inl ''Sender must be either \"user\" or \"assistant\"''
      else if \<not> List.member [''text'', ''voice''] type
        then Inl ''Type must be either \"text\" or \"voice\"''
      else Inr (createMessage rt (trim content) sender type))"

record chatState =
  messages :: "message list"
  cs_isConnected :: bool
  cs_isListening :: bool
  cs_isSpeaking :: bool
  cs_error :: "string option"

definition createChatState :: chatState where
  "createChatState = \<lparr> messages = [], cs_isConnected = False, cs_isListening = False,
                        cs_isSpeaking = False, cs_error = None \<rparr>"

text \<open>The component's state: the chat state, the input buffer, the loading flag, the
  number of reply timers set by \<^verbatim>\<open>setTimeout\<close> that have not fired yet, and the error
  context.\<close>

record chatWindow =
  chat :: chatState
  inputValue :: string
  isLoading :: bool
  replyTimers :: nat
  cw_errorCtx :: errorContext

definition initialChatWindow :: chatWindow where
  "initialChatWindow = \<lparr> chat = createChatState, inputValue = [], isLoading = False,
                          replyTimers = 0, cw_errorCtx = initialErrorContext \<rparr>"

definition responses :: "string list" where
  "responses =
     [''I understand your request. How can I assist you further?'',
      ''Processing your input. What would you like me to help you with next?'',
      ''I'm here to help. Please let me know if you need anything else.'',
      ''Your message has been received. I'm ready for your next command.'',
      ''Thank you for your input. How may I be of service?'']"

text \<open>\<^verbatim>\<open>handleSendMessage(content)\<close> up to the point where it has set the reply timer.\<close>

definition handleSendMessage :: "runtime \<Rightarrow> string \<Rightarrow> chatWindow \<Rightarrow> chatWindow" where
  "handleSendMessage rt content cw =
     (if trim content = [] then cw
      else (case createChatMessage rt (trim content) ''user'' ''text'' of
              Inr userMessage \<Rightarrow>
                cw\<lparr> chat := (chat cw)\<lparr>messages := messages (chat cw) @ [userMessage]\<rparr>,
                     inputValue := [],
                     isLoading := True,
                     replyTimers := Suc (replyTimers cw) \<rparr>
            | Inl thrown \<Rightarrow>
                cw\<lparr> chat := (chat cw)\<lparr>cs_error :=
                                Some ''Failed to send message. Please try again.''\<rparr>,
                     isLoading := False,
                     cw_errorCtx := handleError rt (ErrorInstance thrown) ''Message sending''
                                      (cw_errorCtx cw) \<rparr>))"

text \<open>
  The timer callback, fired by the host some time after the send. \<open>k\<close> is
  \<^verbatim>\<open>Math.floor(Math.random() * responses.length)\<close>. Without a pending timer nothing
  fires. An exception in the callback (there is no \<^verbatim>\<open>try\<close> around it) leaves the state
  as it was.
\<close>

definition replyTimerFired :: "runtime \<Rightarrow> nat \<Rightarrow> chatWindow \<Rightarrow> chatWindow" where
  "replyTimerFired rt k cw =
     (if replyTimers cw = 0 then cw
      else (let cw1 = cw\<lparr>replyTimers := replyTimers cw - 1\<rparr>
            in if k < length responses
               then (case createChatMessage rt (responses ! k) ''assistant'' ''text'' of
                       Inr assistantMessage \<Rightarrow>
                         cw1\<lparr> chat := (chat cw1)\<lparr>messages :=
                                         messages (chat cw1) @ [assistantMessage]\<rparr>,
                               isLoading := False \<rparr>
                     | Inl thrown \<Rightarrow> cw1)
               else cw1))"

section \<open>Properties of the logger\<close>

lemma drop_tail_absorb:
  "0 < k \<Longrightarrow>
   drop (length (drop (length xs - k) xs @ ys) - k) (drop (length xs - k) xs @ ys)
     = drop (length (xs @ ys) - k) (xs @ ys)"
  by (cases "length xs \<le> k") (auto simp: add.commute)

lemma createLogEntry_fst [simp]:
  "fst (createLogEntry rt level m d c lg) = newLogEntry rt level m d c"
  by (simp add: createLogEntry_def Let_def)

lemma createLogEntry_logs:
  "0 < maxLogs lg \<Longrightarrow>
   logs (snd (createLogEntry rt level m d c lg))
     = drop (length (logs lg @ [newLogEntry rt level m d c]) - maxLogs lg)
            (logs lg @ [newLogEntry rt level m d c])"
  by (simp add: createLogEntry_def Let_def sliceFromEnd_def)

lemma createLogEntry_maxLogs [simp]:
  "maxLogs (snd (createLogEntry rt level m d c lg)) = maxLogs lg"
  by (simp add: createLogEntry_def Let_def)

lemma createLogEntry_isProduction [simp]:
  "isProduction (snd (createLogEntry rt level m d c lg)) = isProduction lg"
  by (simp add: createLogEntry_def Let_def)

text \<open>Every wrapper is \<^verbatim>\<open>createLogEntry\<close> at its own level, or nothing at all.\<close>

lemma doLogCall_eq:
  "doLogCall rt c lg =
     (if createsEntry (isProduction lg) c
      then (Some (entryOfCall rt c),
            snd (createLogEntry rt (le_level (entryOfCall rt c)) (le_message (entryOfCall rt c))
                   (le_details (entryOfCall rt c)) (le_context (entryOfCall rt c)) lg))
      else (None, lg))"
  by (cases c)
     (simp_all add: createsEntry_def logger_error_def logger_warn_def logger_info_def
        logger_debug_def newLogEntry_def split: prod.splits,
      (metis createLogEntry_fst newLogEntry_def fst_conv)+)

lemma doLogCall_fst:
  "fst (doLogCall rt c lg) =
     (if createsEntry (isProduction lg) c then Some (entryOfCall rt c) else None)"
  by (simp add: doLogCall_eq)

lemma doLogCall_skip: "\<not> createsEntry (isProduction lg) c \<Longrightarrow> snd (doLogCall rt c lg) = lg"
  by (simp add: doLogCall_eq)

lemma doLogCall_isProduction [simp]: "isProduction (snd (doLogCall rt c lg)) = isProduction lg"
  by (simp add: doLogCall_eq)

lemma doLogCall_maxLogs [simp]: "maxLogs (snd (doLogCall rt c lg)) = maxLogs lg"
  by (simp add: doLogCall_eq)

lemma doLogCall_logs:
  "0 < maxLogs lg \<Longrightarrow> createsEntry (isProduction lg) c \<Longrightarrow>
   logs (snd (doLogCall rt c lg)) =
     drop (length (logs lg @ [entryOfCall rt c]) - maxLogs lg) (logs lg @ [entryOfCall rt c])"
  by (cases c) (simp_all add: doLogCall_eq createLogEntry_logs newLogEntry_def)

lemma runLogCalls_Cons_fst:
  "fst (runLogCalls ((rt, c) # cs) lg) =
     fst (doLogCall rt c lg) # fst (runLogCalls cs (snd (doLogCall rt c lg)))"
  by (simp split: prod.splits)

lemma runLogCalls_Cons_snd:
  "snd (runLogCalls ((rt, c) # cs) lg) = snd (runLogCalls cs (snd (doLogCall rt c lg)))"
  by (simp split: prod.splits)

lemma runLogCalls_fst:
  "fst (runLogCalls cs lg) = expectedResults (isProduction lg) cs"
proof (induction cs arbitrary: lg)
  case Nil
  show ?case by simp
next
  case (Cons a cs)
  obtain rt c where a: "a = (rt, c)" by (cases a)
  show ?case
    using Cons.IH [of "snd (doLogCall rt c lg)"]
    by (simp add: a runLogCalls_Cons_fst doLogCall_fst del: runLogCalls.simps)
qed

lemma runLogCalls_maxLogs [simp]: "maxLogs (snd (runLogCalls cs lg)) = maxLogs lg"
proof (induction cs arbitrary: lg)
  case Nil
  show ?case by simp
next
  case (Cons a cs)
  obtain rt c where a: "a = (rt, c)" by (cases a)
  show ?case
    using Cons.IH [of "snd (doLogCall rt c lg)"]
    by (simp add: a runLogCalls_Cons_snd del: runLogCalls.simps)
qed

text \<open>A run in which no call creates an entry leaves the logger as it was.\<close>

lemma runLogCalls_idle:
  "createdEntries (isProduction lg) cs = [] \<Longrightarrow> snd (runLogCalls cs lg) = lg"
proof (induction cs arbitrary: lg)
  case Nil
  show ?case by simp
next
  case (Cons a cs)
  obtain rt c where a: "a = (rt, c)" by (cases a)
  from Cons.prems have no: "\<not> createsEntry (isProduction lg) c"
    and rest: "createdEntries (isProduction lg) cs = []"
    by (auto simp: a split: if_splits)
  show ?case
    unfolding a runLogCalls_Cons_snd doLogCall_skip [OF no] using Cons.IH [OF rest] .
qed

text \<open>After a run that creates at least one entry, the buffer is the tail of the old
  buffer followed by the new entries, cut to the capacity.\<close>

lemma runLogCalls_logs:
  "0 < maxLogs lg \<Longrightarrow> createdEntries (isProduction lg) cs \<noteq> [] \<Longrightarrow>
   logs (snd (runLogCalls cs lg)) =
     drop (length (logs lg @ createdEntries (isProduction lg) cs) - maxLogs lg)
          (logs lg @ createdEntries (isProduction lg) cs)"
proof (induction cs arbitrary: lg)
  case Nil
  then show ?case by simp
next
  case (Cons a cs)
  obtain rt c where a: "a = (rt, c)" by (cases a)
  let ?lg' = "snd (doLogCall rt c lg)"
  have run: "snd (runLogCalls (a # cs) lg) = snd (runLogCalls cs ?lg')"
    by (simp add: a runLogCalls_Cons_snd del: runLogCalls.simps)
  show ?case
  proof (cases "createsEntry (isProduction lg) c")
    case False
    then have same: "?lg' = lg" by (rule doLogCall_skip)
    from False Cons.prems have "createdEntries (isProduction lg) cs \<noteq> []"
      by (simp add: a)
    with Cons.IH [of lg] Cons.prems(1) False show ?thesis
      unfolding run same by (simp add: a)
  next
    case True
    let ?e = "entryOfCall rt c"
    have l': "logs ?lg' = drop (length (logs lg @ [?e]) - maxLogs lg) (logs lg @ [?e])"
      using doLogCall_logs [OF Cons.prems(1) True] .
    show ?thesis
    proof (cases "createdEntries (isProduction lg) cs = []")
      case none: True
      have "snd (runLogCalls cs ?lg') = ?lg'"
        using none runLogCalls_idle [of "?lg'" cs] by simp
      then show ?thesis
        unfolding run using l' True none by (simp add: a)
    next
      case some: False
      have "logs (snd (runLogCalls cs ?lg')) =
              drop (length (logs ?lg' @ createdEntries (isProduction lg) cs) - maxLogs lg)
                   (logs ?lg' @ createdEntries (isProduction lg) cs)"
        using Cons.IH [of ?lg'] Cons.prems(1) some by simp
      also have "\<dots> =
              drop (length ((logs lg @ [?e]) @ createdEntries (isProduction lg) cs) - maxLogs lg)
                   ((logs lg @ [?e]) @ createdEntries (isProduction lg) cs)"
        unfolding l' using drop_tail_absorb [OF Cons.prems(1)] by blast
      finally show ?thesis unfolding run using True by (simp add: a)
    qed
  qed
qed

lemma createdEntries_replicate:
  "createdEntries production (replicate n (rt, c)) =
     (if createsEntry production c then replicate n (entryOfCall rt c) else [])"
  by (induction n) simp_all

lemma expectedResults_replicate:
  "expectedResults production (replicate n (rt, c)) =
     replicate n (if createsEntry production c then Some (entryOfCall rt c) else None)"
  by (induction n) simp_all

lemma newErrorLogger_fields:
  "maxLogs (newErrorLogger rt production) = 1000"
  "isProduction (newErrorLogger rt production) = production"
  "length (logs (newErrorLogger rt production)) = 1"
  by (simp_all add: newErrorLogger_def logger_info_def createLogEntry_def Let_def)

text \<open>
  Claim C4, as amended. For every run of \<^verbatim>\<open>log\<close>, \<^verbatim>\<open>error\<close>, \<^verbatim>\<open>warn\<close>, \<^verbatim>\<open>info\<close> and
  \<^verbatim>\<open>debug\<close> calls on a logger of capacity 1000 in which more than 1000 calls create an
  entry (every call does, except \<^verbatim>\<open>debug\<close> in production mode, which returns \<^verbatim>\<open>null\<close>
  and appends nothing), each call that creates an entry returns it, and the buffer
  afterwards holds exactly the 1000 most recently created entries, in insertion order.
\<close>

theorem log_ring_buffer:
  assumes "maxLogs lg = 1000"
    and "1000 < length (createdEntries (isProduction lg) cs)"
  shows "fst (runLogCalls cs lg) = expectedResults (isProduction lg) cs
       \<and> logs (snd (runLogCalls cs lg))
           = drop (length (createdEntries (isProduction lg) cs) - 1000)
                  (createdEntries (isProduction lg) cs)
       \<and> length (logs (snd (runLogCalls cs lg))) = 1000"
proof -
  let ?es = "createdEntries (isProduction lg) cs"
  from assms(2) have ne: "?es \<noteq> []" by auto
  have "logs (snd (runLogCalls cs lg)) = drop (length (logs lg @ ?es) - 1000) (logs lg @ ?es)"
    using runLogCalls_logs [of lg cs] ne assms(1) by simp
  also have "\<dots> = drop (length ?es - 1000) ?es"
    using assms(2) by simp
  finally have buf: "logs (snd (runLogCalls cs lg)) = drop (length ?es - 1000) ?es" .
  have "length (drop (length ?es - 1000) ?es) = 1000"
    using assms(2) by simp
  with buf show ?thesis by (simp add: runLogCalls_fst)
qed

theorem log_ring_buffer_witness:
  "maxLogs (newErrorLogger sampleRuntime False) = 1000
   \<and> 1000 < length (createdEntries (isProduction (newErrorLogger sampleRuntime False))
                      (replicate 1001 (sampleRuntime, LogInfo ''tick'' None None)))
   \<and> logs (snd (runLogCalls (replicate 1001 (sampleRuntime, LogInfo ''tick'' None None))
                  (newErrorLogger sampleRuntime False)))
       = replicate 1000 (newLogEntry sampleRuntime ''INFO'' ''tick'' None None)"
proof -
  have m: "maxLogs (newErrorLogger sampleRuntime False) = 1000"
    by (rule newErrorLogger_fields)
  have n: "1000 < length (createdEntries (isProduction (newErrorLogger sampleRuntime False))
                            (replicate 1001 (sampleRuntime, LogInfo ''tick'' None None)))"
    by (simp add: createdEntries_replicate createsEntry_def)
  show ?thesis
    using m n log_ring_buffer [OF m n]
    by (simp add: createdEntries_replicate createsEntry_def newErrorLogger_fields)
qed

theorem debug_in_production_counterexample:
  "fst (runLogCalls (replicate 1001 (sampleRuntime, LogDebug ''tick'' None None))
          (newErrorLogger sampleRuntime True)) = replicate 1001 None
   \<and> length (logs (snd (runLogCalls (replicate 1001 (sampleRuntime, LogDebug ''tick'' None None))
                          (newErrorLogger sampleRuntime True)))) = 1"
proof -
  let ?lg = "newErrorLogger sampleRuntime True"
  let ?cs = "replicate 1001 (sampleRuntime, LogDebug ''tick'' None None)"
  have none: "createdEntries (isProduction ?lg) ?cs = []"
    by (simp add: createdEntries_replicate createsEntry_def newErrorLogger_fields)
  have "snd (runLogCalls ?cs ?lg) = ?lg"
    using none by (rule runLogCalls_idle)
  moreover have "fst (runLogCalls ?cs ?lg) = replicate 1001 None"
    by (simp add: runLogCalls_fst expectedResults_replicate createsEntry_def
          newErrorLogger_fields)
  ultimately show ?thesis by (simp add: newErrorLogger_fields)
qed

text \<open>
  Claim C10. For every logger state, \<^verbatim>\<open>clearLogs()\<close> returns the number of entries that
  were in the buffer, and the buffer afterwards holds exactly one entry: the INFO entry
  that records the clearing.
\<close>

theorem clearLogs_leaves_one_entry:
  "fst (clearLogs rt lg) = length (logs lg)
   \<and> logs (snd (clearLogs rt lg))
       = [newLogEntry rt ''INFO''
            (''Cleared '' @ stringOfNat (length (logs lg)) @ '' log entries'')
            None (Some ''Log Management'')]
   \<and> length (logs (snd (clearLogs rt lg))) = 1"
  by (simp add: clearLogs_def logger_info_def createLogEntry_def Let_def sliceFromEnd_def)

section \<open>Properties of error classification\<close>

lemma classify_known: "classify m \<in> set ERROR_TYPES"
  by (simp add: classify_def ERROR_TYPES_def)

lemma widget_kind_known [simp]: "WIDGET_INITIALIZATION_ERROR \<in> set ERROR_TYPES"
  by (simp add: ERROR_TYPES_def)

lemma classify_examples:
  "classify ''Permission denied for microphone'' = MICROPHONE_ACCESS_DENIED"
  "classify ''Failed to fetch'' = NETWORK_ERROR"
  "classify ''speech synthesis failed'' = VOICE_PROCESSING_ERROR"
  "classify ''ElevenLabs widget not found'' = WIDGET_INITIALIZATION_ERROR"
  "classify ''Out of memory'' = UNKNOWN_ERROR"
  by (simp_all add: classify_def)

text \<open>
  Claim C8. For every \<^verbatim>\<open>Error\<close> instance passed to \<^verbatim>\<open>handleError\<close>, the kind of the
  resulting \<^verbatim>\<open>AppError\<close> is one of the five kinds and is a function of the error's
  message alone (another clock reading or context label gives the same kind); its
  \<^verbatim>\<open>recoverable\<close> flag is false exactly when that kind is \<^verbatim>\<open>MICROPHONE_ACCESS_DENIED\<close>;
  and this \<^verbatim>\<open>AppError\<close> is the one appended to the active errors.
\<close>

theorem handleError_recoverable:
  "ae_type (handleError_appError rt (ErrorInstance m) context) = classify m
   \<and> classify m \<in> set ERROR_TYPES
   \<and> ae_recoverable (handleError_appError rt (ErrorInstance m) context)
       = (classify m \<noteq> MICROPHONE_ACCESS_DENIED)
   \<and> ae_type (handleError_appError rt' (ErrorInstance m) context')
       = ae_type (handleError_appError rt (ErrorInstance m) context)
   \<and> errors (ec_state (handleError rt (ErrorInstance m) context ec))
       = errors (ec_state ec) @ [handleError_appError rt (ErrorInstance m) context]"
  by (simp add: handleError_appError_def handleError_def addError_def createAppError_def
        Let_def classify_known)

section \<open>Properties of the widget hook\<close>

lemma applyCall_rendered [simp]: "rendered (applyCall rt c w) = rendered w"
  by (cases c) (simp_all add: handleWidgetError_def connect_def Let_def split: option.splits)

text \<open>Two renders settle the hook: the cleanup runs at most once, when the store has
  left a call that the previous render was in.\<close>

lemma render_twice_hook:
  "hook (render (render w)) =
     (if isInCall (rendered w) \<and> \<not> isInCall (hook w) then disconnect (hook w) else hook w)"
  by (auto simp: render_def effectCleanup_def disconnect_def Let_def)

lemma render_twice_settled: "rendered (render (render w)) = hook (render (render w))"
  by (auto simp: render_def effectCleanup_def disconnect_def Let_def)

lemma dispatch_settled: "rendered (dispatch rt c w) = hook (dispatch rt c w)"
  by (simp add: dispatch_def render_twice_settled)

lemma render_settled: "rendered w = hook w \<Longrightarrow> render w = w"
  by (simp add: render_def Let_def)

lemma dispatch_hook:
  "hook (dispatch rt c w) =
     (if isInCall (rendered w) \<and> \<not> isInCall (hook (applyCall rt c w))
      then disconnect (hook (applyCall rt c w))
      else hook (applyCall rt c w))"
  by (simp add: dispatch_def render_twice_hook)




text \<open>
  Claim C9, as amended. In every connected hook state that has been rendered, a
  \<^verbatim>\<open>toggleVoiceInput\<close> succeeds and flips \<^verbatim>\<open>isListening\<close>, so two toggles with a render
  between them (two separate host events) bring \<^verbatim>\<open>isListening\<close> back to the value it
  had before the pair. Two toggles from the same render both branch on the same captured
  \<^verbatim>\<open>isListening\<close> and leave it flipped.
\<close>

theorem toggleVoiceInput_twice:
  assumes "isConnected (hook w)" and "rendered w = hook w"
  shows "isListening (hook (dispatch rt' ToggleVoiceInput (dispatch rt ToggleVoiceInput w)))
           = isListening (hook w)
       \<and> isListening (hook (dispatch rt ToggleVoiceInput w)) = (\<not> isListening (hook w))
       \<and> fst (toggleVoiceInput rt (rendered w) (hook w)) = True
       \<and> isListening (hook (applyCall rt' ToggleVoiceInput (applyCall rt ToggleVoiceInput w)))
           = (\<not> isListening (hook w))"
  using assms
  by (simp add: dispatch_def render_def effectCleanup_def toggleVoiceInput_def
        startVoiceInput_def stopVoiceInput_def Let_def)

theorem toggleVoiceInput_twice_witness:
  "isConnected (hook (dispatch sampleRuntime (Connect widgetDocument) initialWorld))
   \<and> rendered (dispatch sampleRuntime (Connect widgetDocument) initialWorld)
       = hook (dispatch sampleRuntime (Connect widgetDocument) initialWorld)
   \<and> isListening (hook (dispatch sampleRuntime ToggleVoiceInput
        (dispatch sampleRuntime (Connect widgetDocument) initialWorld)))
   \<and> \<not> isListening (hook (dispatch sampleRuntime ToggleVoiceInput
        (dispatch sampleRuntime ToggleVoiceInput
           (dispatch sampleRuntime (Connect widgetDocument) initialWorld))))"
proof -
  let ?w = "dispatch sampleRuntime (Connect widgetDocument) initialWorld"
  have c: "isConnected (hook ?w)"
    by (simp add: dispatch_hook connect_def querySelector_convai_def widgetDocument_def
          initialWorld_def initialHook_def)
  have r: "rendered ?w = hook ?w"
    by (rule dispatch_settled)
  have l: "\<not> isListening (hook ?w)"
    by (simp add: dispatch_hook connect_def querySelector_convai_def widgetDocument_def
          initialWorld_def initialHook_def)
  show ?thesis
    using c r l toggleVoiceInput_twice [OF c r, of sampleRuntime sampleRuntime] by simp
qed

theorem toggle_same_render_counterexample:
  "isConnected (hook (dispatch sampleRuntime (Connect widgetDocument) initialWorld))
   \<and> \<not> isListening (hook (dispatch sampleRuntime (Connect widgetDocument) initialWorld))
   \<and> isListening (hook (render (render
        (applyCall sampleRuntime ToggleVoiceInput
           (applyCall sampleRuntime ToggleVoiceInput
              (dispatch sampleRuntime (Connect widgetDocument) initialWorld))))))"
  by (simp add: dispatch_def render_def effectCleanup_def connect_def querySelector_convai_def
        widgetDocument_def toggleVoiceInput_def startVoiceInput_def stopVoiceInput_def
        initialWorld_def initialHook_def Let_def)

text \<open>Every event keeps listening and speaking exclusive, in the store and in the
  rendered state, whatever the closures captured.\<close>

lemma applyCall_exclusive:
  "\<not> (isListening (hook w) \<and> isSpeaking (hook w)) \<Longrightarrow>
   \<not> (isListening (hook (applyCall rt c w)) \<and> isSpeaking (hook (applyCall rt c w)))"
  by (cases c)
     (auto simp: handleStatusChange_def handleConversationStart_def handleConversationEnd_def
        handleWidgetError_def connect_def disconnect_def clearError_def startVoiceInput_def
        stopVoiceInput_def toggleVoiceInput_def Let_def
        split: option.splits if_splits)

lemma applyEvent_exclusive:
  assumes "\<not> (isListening (hook w) \<and> isSpeaking (hook w))"
    and "\<not> (isListening (rendered w) \<and> isSpeaking (rendered w))"
  shows "\<not> (isListening (hook (applyEvent rt e w)) \<and> isSpeaking (hook (applyEvent rt e w)))"
    and "\<not> (isListening (rendered (applyEvent rt e w))
            \<and> isSpeaking (rendered (applyEvent rt e w)))"
proof -
  show "\<not> (isListening (hook (applyEvent rt e w)) \<and> isSpeaking (hook (applyEvent rt e w)))"
  proof (cases e)
    case (Call c)
    then show ?thesis using applyCall_exclusive [OF assms(1)] by simp
  next
    case Render
    then show ?thesis
      using assms(1) by (auto simp: render_def effectCleanup_def disconnect_def Let_def)
  next
    case Unmount
    then show ?thesis
      using assms(1) by (auto simp: effectCleanup_def disconnect_def)
  qed
  show "\<not> (isListening (rendered (applyEvent rt e w))
          \<and> isSpeaking (rendered (applyEvent rt e w)))"
  proof (cases e)
    case (Call c)
    then show ?thesis using assms(2) by simp
  next
    case Render
    then show ?thesis using assms(1) by (auto simp: render_def Let_def)
  next
    case Unmount
    then show ?thesis using assms(2) by simp
  qed
qed

lemma runEvents_exclusive:
  "\<not> (isListening (hook w) \<and> isSpeaking (hook w)) \<Longrightarrow>
   \<not> (isListening (rendered w) \<and> isSpeaking (rendered w)) \<Longrightarrow>
   \<not> (isListening (hook (runEvents es w)) \<and> isSpeaking (hook (runEvents es w)))
   \<and> \<not> (isListening (rendered (runEvents es w)) \<and> isSpeaking (rendered (runEvents es w)))"
proof (induction es arbitrary: w)
  case Nil
  then show ?case by simp
next
  case (Cons a es)
  obtain rt e where a: "a = (rt, e)" by (cases a)
  show ?case
    unfolding a runEvents.simps
    by (rule Cons.IH) (rule applyEvent_exclusive [OF Cons.prems])+
qed

text \<open>
  Claim C6. In every state reached from the initial state by any sequence of widget
  callbacks (status changes with any status string, conversation start and end, widget
  errors), commands (connect, disconnect, clearError, start, stop and toggle voice
  input), renders and the unmount, \<^verbatim>\<open>isListening\<close> and \<^verbatim>\<open>isSpeaking\<close> are not both true,
  neither in the state store nor in the state a render shows.
\<close>

theorem listening_speaking_exclusive:
  "\<not> (isListening (hook (runEvents es initialWorld))
      \<and> isSpeaking (hook (runEvents es initialWorld)))
   \<and> \<not> (isListening (rendered (runEvents es initialWorld))
        \<and> isSpeaking (rendered (runEvents es initialWorld)))"
  by (rule runEvents_exclusive) (simp_all add: initialWorld_def initialHook_def)

lemma applyCall_clears:
  "error (hook w) \<noteq> None \<Longrightarrow> (error (hook (applyCall rt c w)) = None) = clearsError c"
  by (cases c)
     (auto simp: handleStatusChange_def handleConversationStart_def handleConversationEnd_def
        handleWidgetError_def connect_def disconnect_def clearError_def startVoiceInput_def
        stopVoiceInput_def toggleVoiceInput_def Let_def
        split: option.splits if_splits)

lemma applyCall_endsCall:
  "isInCall (hook w) \<Longrightarrow> (\<not> isInCall (hook (applyCall rt c w))) = endsCall c"
  by (cases c)
     (auto simp: handleStatusChange_def handleConversationStart_def handleConversationEnd_def
        handleWidgetError_def connect_def disconnect_def clearError_def startVoiceInput_def
        stopVoiceInput_def toggleVoiceInput_def Let_def
        split: option.splits if_splits)

text \<open>
  Claim C5, as amended. Once the hook's error is set, it is reset to \<^verbatim>\<open>null\<close> by
  \<^verbatim>\<open>clearError\<close>, by \<^verbatim>\<open>disconnect\<close>, by a \<^verbatim>\<open>connect\<close> that finds the widget element, by
  the \<^verbatim>\<open>connected\<close> status event and by the conversation-start callback, whose code
  clears it; and, during a call, by the end of the conversation and by the
  \<^verbatim>\<open>disconnected\<close>, \<^verbatim>\<open>idle\<close> and \<^verbatim>\<open>error\<close> status events, because the cleanup of the
  hook's effect calls \<^verbatim>\<open>disconnect\<close> at the render after \<^verbatim>\<open>isInCall\<close> has gone from true
  to false. Nothing else resets it: every other callback or command (the \<^verbatim>\<open>in-call\<close>,
  \<^verbatim>\<open>listening\<close>, \<^verbatim>\<open>speaking\<close> and unknown statuses, a widget error, a \<^verbatim>\<open>connect\<close> that
  finds no element, start, stop and toggle voice input, and outside a call the end of a
  conversation and the \<^verbatim>\<open>disconnected\<close>, \<^verbatim>\<open>idle\<close> and \<^verbatim>\<open>error\<close> statuses) leaves the
  error set. The first conjunct says this for each single step (call, render, unmount),
  the second for a call followed by its renders, from a rendered state.
\<close>

theorem error_cleared_only_by:
  assumes "error (hook w) \<noteq> None"
  shows "(error (hook (applyEvent rt e w)) = None) = eventClearsError e w
       \<and> (rendered w = hook w \<longrightarrow>
            (error (hook (dispatch rt c w)) = None)
              = (clearsError c \<or> (isInCall (hook w) \<and> endsCall c)))"
proof
  show "(error (hook (applyEvent rt e w)) = None) = eventClearsError e w"
  proof (cases e)
    case (Call c')
    then show ?thesis using applyCall_clears [OF assms] by simp
  next
    case Render
    then show ?thesis
      using assms by (auto simp: render_def effectCleanup_def disconnect_def Let_def)
  next
    case Unmount
    then show ?thesis
      using assms by (auto simp: effectCleanup_def disconnect_def)
  qed
  show "rendered w = hook w \<longrightarrow>
          (error (hook (dispatch rt c w)) = None)
            = (clearsError c \<or> (isInCall (hook w) \<and> endsCall c))"
  proof
    assume settled: "rendered w = hook w"
    show "(error (hook (dispatch rt c w)) = None)
            = (clearsError c \<or> (isInCall (hook w) \<and> endsCall c))"
    proof (cases "isInCall (hook w)")
      case True
      show ?thesis
        using applyCall_clears [OF assms, of rt c] applyCall_endsCall [OF True, of rt c] True
        by (auto simp: dispatch_hook settled disconnect_def)
    next
      case False
      show ?thesis
        using applyCall_clears [OF assms, of rt c] False
        by (simp add: dispatch_hook settled)
    qed
  qed
qed

theorem error_cleared_only_by_witness:
  "error (hook (dispatch sampleRuntime (WidgetError ''boom'')
                  (dispatch sampleRuntime ConversationStart initialWorld))) \<noteq> None
   \<and> rendered (dispatch sampleRuntime (WidgetError ''boom'')
                 (dispatch sampleRuntime ConversationStart initialWorld))
       = hook (dispatch sampleRuntime (WidgetError ''boom'')
                 (dispatch sampleRuntime ConversationStart initialWorld))
   \<and> error (hook (dispatch sampleRuntime ConversationEnd
                     (dispatch sampleRuntime (WidgetError ''boom'')
                        (dispatch sampleRuntime ConversationStart initialWorld)))) = None
   \<and> error (hook (dispatch sampleRuntime (StatusChange ''listening'')
                     (dispatch sampleRuntime (WidgetError ''boom'')
                        (dispatch sampleRuntime ConversationStart initialWorld)))) \<noteq> None
   \<and> error (hook (applyEvent sampleRuntime (Call ConversationEnd)
                     (dispatch sampleRuntime (WidgetError ''boom'')
                        (dispatch sampleRuntime ConversationStart initialWorld)))) \<noteq> None"
proof -
  let ?w = "dispatch sampleRuntime (WidgetError ''boom'')
              (dispatch sampleRuntime ConversationStart initialWorld)"
  have e: "error (hook ?w) \<noteq> None"
    by (simp add: dispatch_hook handleWidgetError_def handleConversationStart_def Let_def
          initialWorld_def initialHook_def)
  have r: "rendered ?w = hook ?w"
    by (rule dispatch_settled)
  have i: "isInCall (hook ?w)"
    by (simp add: dispatch_hook handleWidgetError_def handleConversationStart_def Let_def
          initialWorld_def initialHook_def)
  show ?thesis
    using e r i
      error_cleared_only_by [OF e, of sampleRuntime "Call ConversationEnd" ConversationEnd]
      error_cleared_only_by [OF e, of sampleRuntime "Call ConversationEnd"
        "StatusChange ''listening''"]
    by simp
qed

theorem disconnect_clears_error_counterexample:
  "error (hook (dispatch sampleRuntime StartVoiceInput initialWorld)) \<noteq> None
   \<and> error (hook (dispatch sampleRuntime Disconnect
                     (dispatch sampleRuntime StartVoiceInput initialWorld))) = None"
  by (simp add: dispatch_def render_def effectCleanup_def startVoiceInput_def disconnect_def
        initialWorld_def initialHook_def Let_def)

text \<open>
  Claim C2, as amended. \<^verbatim>\<open>connect()\<close> does not look at \<^verbatim>\<open>isConnected\<close>: on every call it
  looks for the widget element in the document. Without one it stores a
  \<^verbatim>\<open>WIDGET_INITIALIZATION_ERROR\<close> in the hook, reports an error of that kind to the error
  context and leaves \<^verbatim>\<open>isConnected\<close> as it was. With one it sets \<^verbatim>\<open>isConnected\<close>,
  remembers the element, clears the error and reports nothing, and a second \<^verbatim>\<open>connect()\<close>
  on the same document changes nothing more.
\<close>

theorem connect_contract:
  "(case querySelector_convai doc of
      None \<Rightarrow>
        map_option ae_type (error (hook (connect rt doc w))) = Some WIDGET_INITIALIZATION_ERROR
        \<and> isConnected (hook (connect rt doc w)) = isConnected (hook w)
        \<and> map ae_type (errors (ec_state (errorCtx (connect rt doc w))))
            = map ae_type (errors (ec_state (errorCtx w))) @ [WIDGET_INITIALIZATION_ERROR]
    | Some widget \<Rightarrow>
        isConnected (hook (connect rt doc w))
        \<and> error (hook (connect rt doc w)) = None
        \<and> widgetRef (hook (connect rt doc w)) = Some widget
        \<and> errorCtx (connect rt doc w) = errorCtx w
        \<and> connect rt' doc (connect rt doc w) = connect rt doc w)"
  by (simp add: connect_def Let_def createApplicationError_def createAppError_def
        handleError_def handleError_appError_def addError_def classify_def
        split: option.splits)

theorem connect_contract_witness:
  "isConnected (hook (connect sampleRuntime widgetDocument initialWorld))
   \<and> error (hook (connect sampleRuntime widgetDocument initialWorld)) = None
   \<and> connect sampleRuntime widgetDocument (connect sampleRuntime widgetDocument initialWorld)
       = connect sampleRuntime widgetDocument initialWorld
   \<and> map_option ae_type (error (hook (connect sampleRuntime emptyDocument initialWorld)))
       = Some WIDGET_INITIALIZATION_ERROR"
  using connect_contract [where doc = widgetDocument and rt = sampleRuntime
      and w = initialWorld and rt' = sampleRuntime]
    connect_contract [where doc = emptyDocument and rt = sampleRuntime and w = initialWorld]
  by (simp add: querySelector_convai_def widgetDocument_def emptyDocument_def)

theorem connect_when_connected_counterexample:
  "isConnected (hook (connect sampleRuntime widgetDocument initialWorld))
   \<and> error (hook (connect sampleRuntime widgetDocument initialWorld)) = None
   \<and> connect sampleRuntime emptyDocument (connect sampleRuntime widgetDocument initialWorld)
       \<noteq> connect sampleRuntime widgetDocument initialWorld
   \<and> error (hook (connect sampleRuntime emptyDocument
                     (connect sampleRuntime widgetDocument initialWorld))) \<noteq> None"
  by (simp add: connect_def querySelector_convai_def widgetDocument_def emptyDocument_def
        initialWorld_def initialHook_def Let_def)

section \<open>Properties of script loading\<close>

lemma widgetScriptUrl_matches:
  "matchesWidgetScript \<lparr> st_node = node, st_src = widgetScriptUrl \<rparr>"
  by (simp add: matchesWidgetScript_def widgetScriptUrl_def)

lemma querySelector_script_appendScript:
  "querySelector_script (appendScript node doc) \<noteq> None"
  using widgetScriptUrl_matches [of node]
  by (auto simp: querySelector_script_def appendScript_def find_None_iff)

lemma loadScript_present:
  "querySelector_script doc \<noteq> None \<Longrightarrow> loadScript node doc = (False, doc)"
  by (auto simp: loadScript_def)

lemma loadScript_absent:
  "querySelector_script doc = None \<Longrightarrow> loadScript node doc = (True, appendScript node doc)"
  by (simp add: loadScript_def)

lemma runMounts_guarded_present:
  "list_all isGuardedMount es \<Longrightarrow> querySelector_script doc \<noteq> None \<Longrightarrow>
   runMounts es doc = (0, doc)"
proof (induction es)
  case Nil
  show ?case by simp
next
  case (Cons e es)
  then obtain node where e: "e = MountWidget node" by (cases e) auto
  from Cons show ?case by (simp add: e loadScript_present)
qed

text \<open>
  The component whose \<^verbatim>\<open>loadScript\<close> has the guard: however often it is mounted, one tag
  is injected if the document had no matching tag, and none otherwise.
\<close>

lemma loadScript_injects_at_most_once:
  assumes "list_all isGuardedMount es"
  shows "fst (runMounts es doc)
           = (if es \<noteq> [] \<and> querySelector_script doc = None then 1 else 0)"
proof (cases es)
  case Nil
  then show ?thesis by simp
next
  case (Cons e es')
  with assms obtain node where e: "e = MountWidget node"
    and rest: "list_all isGuardedMount es'"
    by (cases e) auto
  show ?thesis
  proof (cases "querySelector_script doc")
    case None
    then show ?thesis
      using runMounts_guarded_present [OF rest querySelector_script_appendScript [of node doc]]
      by (simp add: Cons e loadScript_absent)
  next
    case (Some t)
    then show ?thesis
      using runMounts_guarded_present [OF assms, of doc] by simp
  qed
qed

text \<open>
  Claim C3 asks that any sequence of mounts injects at most one script tag. The compact
  widget component has no guard: mounted twice on a document without a script tag, it
  injects two tags, and both are then in the document. The guarded component injects
  one on the same input.
\<close>

theorem compactWidget_mounted_twice:
  "fst (runMounts [MountCompactWidget 1, MountCompactWidget 2] emptyDocument) = 2
   \<and> length (filter matchesWidgetScript
        (scripts (snd (runMounts [MountCompactWidget 1, MountCompactWidget 2] emptyDocument))))
       = 2
   \<and> fst (runMounts [MountWidget 1, MountWidget 2] emptyDocument) = 1"
  by (simp add: compactWidget_loadEffect_def appendScript_def emptyDocument_def
        matchesWidgetScript_def widgetScriptUrl_def loadScript_def querySelector_script_def)

section \<open>Properties of the message timeline\<close>

lemma dropWhile_rev_suffix_fixed:
  assumes "b = dropWhile P (rev (dropWhile P s))"
  shows "dropWhile P (rev b) = rev b"
proof (cases "b = []")
  case True
  then show ?thesis by simp
next
  case False
  let ?a = "dropWhile P s"
  from False assms have ne: "?a \<noteq> []" by (cases "?a") auto
  have "\<not> P (hd ?a)" using ne by (simp add: hd_dropWhile)
  moreover have "last b = hd ?a"
    by (metis False assms last_appendR last_rev takeWhile_dropWhile_id)
  ultimately have "\<not> P (hd (rev b))" using False by (simp add: hd_rev)
  then show ?thesis using False by (cases "rev b") auto
qed

lemma trim_idem: "trim (trim s) = trim s"
  using dropWhile_rev_suffix_fixed
    [of "dropWhile isWhiteSpace (rev (dropWhile isWhiteSpace s))" isWhiteSpace s]
  by (simp add: trim_def)

text \<open>A string is blank for \<^verbatim>\<open>trim\<close> exactly when all its characters are white space.\<close>

lemma trim_empty_iff: "trim s = [] \<longleftrightarrow> list_all isWhiteSpace s"
proof
  assume "trim s = []"
  then have all: "\<forall>x\<in>set (dropWhile isWhiteSpace s). isWhiteSpace x"
    by (simp add: trim_def dropWhile_eq_Nil_conv)
  have "dropWhile isWhiteSpace s = []"
  proof (rule ccontr)
    assume ne: "dropWhile isWhiteSpace s \<noteq> []"
    then have "\<not> isWhiteSpace (hd (dropWhile isWhiteSpace s))"
      by (simp add: hd_dropWhile)
    with all ne show False by simp
  qed
  then show "list_all isWhiteSpace s"
    by (simp add: dropWhile_eq_Nil_conv list_all_iff)
next
  assume "list_all isWhiteSpace s"
  then have blank: "dropWhile isWhiteSpace s = []"
    by (simp add: dropWhile_eq_Nil_conv list_all_iff)
  show "trim s = []" unfolding trim_def blank by simp
qed

lemma responses_wellformed: "list_all (\<lambda>s. trim s = s \<and> s \<noteq> []) responses"
  by (simp add: responses_def trim_def isWhiteSpace_def)

lemma responses_trimmed: "k < length responses \<Longrightarrow> trim (responses ! k) = responses ! k"
  using responses_wellformed by (simp add: list_all_length)

lemma responses_nonempty: "k < length responses \<Longrightarrow> responses ! k \<noteq> []"
  using responses_wellformed by (simp add: list_all_length)

lemma createChatMessage_user:
  "content \<noteq> [] \<Longrightarrow>
   createChatMessage rt content ''user'' ''text''
     = Inr (createMessage rt (trim content) ''user'' ''text'')"
  by (simp add: createChatMessage_def)

lemma createChatMessage_assistant:
  "content \<noteq> [] \<Longrightarrow>
   createChatMessage rt content ''assistant'' ''text''
     = Inr (createMessage rt (trim content) ''assistant'' ''text'')"
  by (simp add: createChatMessage_def)

lemma handleSendMessage_blank: "trim content = [] \<Longrightarrow> handleSendMessage rt content cw = cw"
  by (simp add: handleSendMessage_def)

lemma handleSendMessage_sent:
  "trim content \<noteq> [] \<Longrightarrow>
   handleSendMessage rt content cw =
     cw\<lparr> chat := (chat cw)\<lparr>messages := messages (chat cw)
                                  @ [createMessage rt (trim content) ''user'' ''text'']\<rparr>,
          inputValue := [], isLoading := True, replyTimers := Suc (replyTimers cw) \<rparr>"
  by (simp add: handleSendMessage_def createChatMessage_user trim_idem)

lemma replyTimerFired_pending:
  "replyTimers cw \<noteq> 0 \<Longrightarrow> k < length responses \<Longrightarrow>
   replyTimerFired rt k cw =
     cw\<lparr> replyTimers := replyTimers cw - 1,
          chat := (chat cw)\<lparr>messages := messages (chat cw)
                                  @ [createMessage rt (responses ! k) ''assistant'' ''text'']\<rparr>,
          isLoading := False \<rparr>"
  by (simp add: replyTimerFired_def Let_def createChatMessage_assistant responses_nonempty
        responses_trimmed)

text \<open>
  Claim C1, as amended. For every input whose trimmed text is not empty,
  \<^verbatim>\<open>handleSendMessage\<close> appends exactly one \<^verbatim>\<open>user\<close>/\<^verbatim>\<open>text\<close> message holding the trimmed
  text, whose status is \<^verbatim>\<open>sent\<close> from the start (no message ever has the status
  \<^verbatim>\<open>sending\<close>), clears the input buffer and sets one reply timer; when that timer fires,
  exactly one \<^verbatim>\<open>assistant\<close>/\<^verbatim>\<open>text\<close> message with status \<^verbatim>\<open>sent\<close> is appended, so the
  timeline has grown by two (from empty: length 2). For every empty or white-space-only
  input the call changes nothing.
\<close>

theorem sendText_timeline:
  assumes "k < length responses"
  shows "if trim content = []
         then handleSendMessage rt content cw = cw
         else messages (chat (handleSendMessage rt content cw))
                = messages (chat cw) @ [createMessage rt (trim content) ''user'' ''text'']
            \<and> msg_status (createMessage rt (trim content) ''user'' ''text'') = ''sent''
            \<and> inputValue (handleSendMessage rt content cw) = []
            \<and> replyTimers (handleSendMessage rt content cw) = Suc (replyTimers cw)
            \<and> messages (chat (replyTimerFired rt' k (handleSendMessage rt content cw)))
                = messages (chat cw) @ [createMessage rt (trim content) ''user'' ''text'',
                                        createMessage rt' (responses ! k) ''assistant'' ''text'']
            \<and> msg_status (createMessage rt' (responses ! k) ''assistant'' ''text'') = ''sent''
            \<and> replyTimers (replyTimerFired rt' k (handleSendMessage rt content cw))
                = replyTimers cw"
proof (cases "trim content = []")
  case True
  then show ?thesis by (simp add: handleSendMessage_blank)
next
  case False
  show ?thesis
    using False assms
    by (simp add: handleSendMessage_sent replyTimerFired_pending createMessage_def)
qed

theorem sendText_timeline_witness:
  "(0::nat) < length responses
   \<and> map (\<lambda>m. (msg_sender m, msg_type m, msg_status m, msg_content m))
        (messages (chat (replyTimerFired sampleRuntime 0
                           (handleSendMessage sampleRuntime ''Hello'' initialChatWindow))))
      = [(''user'', ''text'', ''sent'', ''Hello''),
         (''assistant'', ''text'', ''sent'',
          ''I understand your request. How can I assist you further?'')]
   \<and> length (messages (chat (replyTimerFired sampleRuntime 0
                           (handleSendMessage sampleRuntime ''Hello'' initialChatWindow)))) = 2
   \<and> handleSendMessage sampleRuntime ''   '' initialChatWindow = initialChatWindow"
proof -
  have k: "(0::nat) < length responses" by (simp add: responses_def)
  have t1: "trim ''Hello'' = ''Hello''" by (simp add: trim_def isWhiteSpace_def)
  have t2: "trim ''   '' = []" by (simp add: trim_def isWhiteSpace_def)
  show ?thesis
    using k sendText_timeline [OF k, of "''Hello''" sampleRuntime initialChatWindow sampleRuntime]
      sendText_timeline [OF k, of "''   ''" sampleRuntime initialChatWindow]
    by (simp add: t1 t2 createMessage_def initialChatWindow_def createChatState_def
          responses_def)
qed

theorem sendText_status_counterexample:
  "map msg_status (messages (chat (handleSendMessage sampleRuntime ''Hello'' initialChatWindow)))
     = [''sent'']
   \<and> \<not> list_ex (\<lambda>m. msg_status m = ''sending'')
         (messages (chat (handleSendMessage sampleRuntime ''Hello'' initialChatWindow)))"
  by (simp add: handleSendMessage_def createChatMessage_def createMessage_def trim_def
        isWhiteSpace_def initialChatWindow_def createChatState_def)

end
